theory Spec2Isabelle
  imports Complex_Main
begin

section \<open>Python strings and the built-ins the code calls\<close>

text \<open>
  A Python \<open>str\<close> is a sequence of Unicode code points, and \<open>len\<close>, slicing and
  \<open>rfind\<close> count code points. A string is therefore a list of code points, each a
  natural number; \<open>asc\<close> turns an ASCII literal into such a list.
\<close>

type_synonym pystr = "nat list"

definition asc :: "string \<Rightarrow> pystr" where
  "asc s = map of_char s"

definition NL :: nat where
  "NL = 10"

text \<open>
  \<open>str.isspace\<close> for one code point: the characters CPython's
  \<open>Py_UNICODE_ISSPACE\<close> accepts. \<open>str.strip()\<close> without argument removes these
  from both ends.
\<close>

definition py_isspace :: "nat \<Rightarrow> bool" where
  "py_isspace c \<longleftrightarrow>
     (9 \<le> c \<and> c \<le> 13) \<or> (28 \<le> c \<and> c \<le> 32) \<or> c = 133 \<or> c = 160 \<or> c = 5760 \<or>
     (8192 \<le> c \<and> c \<le> 8202) \<or> c = 8232 \<or> c = 8233 \<or> c = 8239 \<or> c = 8287 \<or> c = 12288"

definition py_strip :: "pystr \<Rightarrow> pystr" where
  "py_strip s = rev (dropWhile py_isspace (rev (dropWhile py_isspace s)))"

text \<open>
  Slice indices as Python adjusts them for a sequence of length \<open>n\<close>: a negative index
  counts from the end and is clamped at 0, a non-negative one is clamped at \<open>n\<close>.
\<close>

definition py_index :: "int \<Rightarrow> int \<Rightarrow> int" where
  "py_index n i = (if i < 0 then max 0 (i + n) else min i n)"

definition slice_lo :: "'a list \<Rightarrow> int \<Rightarrow> nat" where
  "slice_lo s start = nat (py_index (int (length s)) start)"

definition slice_hi :: "'a list \<Rightarrow> int \<Rightarrow> nat" where
  "slice_hi s end = nat (py_index (int (length s)) end)"

text \<open>\<open>s[start:end]\<close>: the elements at the positions \<open>slice_lo \<le> i < slice_hi\<close>.\<close>

definition py_slice :: "'a list \<Rightarrow> int \<Rightarrow> int \<Rightarrow> 'a list" where
  "py_slice s start end = take (slice_hi s end - slice_lo s start) (drop (slice_lo s start) s)"

text \<open>The positions of the original sequence that \<open>s[start:end]\<close> reads.\<close>

definition segment :: "'a list \<Rightarrow> int \<Rightarrow> int \<Rightarrow> nat set" where
  "segment s start end = {slice_lo s start ..< slice_hi s end}"

text \<open>
  \<open>rfind_scan c xs i best\<close> walks \<open>xs\<close>, whose first element sits at position \<open>i\<close>,
  and keeps the last position holding \<open>c\<close>; \<open>best\<close> is the answer so far.
\<close>

fun rfind_scan :: "'a \<Rightarrow> 'a list \<Rightarrow> int \<Rightarrow> int \<Rightarrow> int" where
  "rfind_scan c [] i best = best"
| "rfind_scan c (x # xs) i best = rfind_scan c xs (i + 1) (if x = c then i else best)"

text \<open>
  \<open>s.rfind(c, start, end)\<close> for a one-character needle: the highest position in
  \<open>s[start:end]\<close> holding \<open>c\<close>, or \<open>-1\<close> when there is none.
\<close>

definition py_rfind :: "'a \<Rightarrow> 'a list \<Rightarrow> int \<Rightarrow> int \<Rightarrow> int" where
  "py_rfind c s start end = rfind_scan c (py_slice s start end) (int (slice_lo s start)) (- 1)"

section \<open>ingest.py: the chunker\<close>

definition CHUNK_SIZE :: int where
  "CHUNK_SIZE = 500"

definition CHUNK_OVERLAP :: int where
  "CHUNK_OVERLAP = 100"

text \<open>
  The end of the segment that one iteration of the loop of \<open>chunk_text\<close> cuts at
  \<open>start\<close>: the tentative end \<open>start + CHUNK_SIZE\<close>, moved back to the last newline
  \<open>bp\<close> of \<open>text[start:end]\<close> when the tentative end is inside the text and
  \<open>bp > start\<close>.
\<close>

definition chunk_end :: "pystr \<Rightarrow> int \<Rightarrow> int" where
  "chunk_end text start =
     (let end = start + CHUNK_SIZE in
      if end < int (length text) then
        (let bp = py_rfind NL text start end in
         if bp > start then bp else end)
      else end)"

text \<open>The chunk of that iteration: \<open>text[start:end].strip()\<close>.\<close>

definition chunk_at :: "pystr \<Rightarrow> int \<Rightarrow> pystr" where
  "chunk_at text start = py_strip (py_slice text start (chunk_end text start))"

text \<open>\<open>if chunk: chunks.append(chunk)\<close>\<close>

definition append_chunk :: "pystr list \<Rightarrow> pystr \<Rightarrow> pystr list" where
  "append_chunk chunks chunk = (if chunk \<noteq> [] then chunks @ [chunk] else chunks)"

text \<open>
  The \<open>while\<close> loop. It need not terminate, so the result is an option: \<open>None\<close> is a
  run that never returns.
\<close>

partial_function (option) chunk_loop :: "pystr \<Rightarrow> int \<Rightarrow> pystr list \<Rightarrow> pystr list option" where
  "chunk_loop text start chunks =
     (if start < int (length text) then
        chunk_loop text (chunk_end text start - CHUNK_OVERLAP)
          (append_chunk chunks (chunk_at text start))
      else Some chunks)"

declare chunk_loop.simps [code]

definition chunk_text :: "pystr \<Rightarrow> pystr list option" where
  "chunk_text text = chunk_loop text 0 []"

text \<open>
  The same loop as a relation between the state at the loop head and the list returned:
  \<open>chunk_run text start chunks r\<close> holds when the loop entered with \<open>start\<close> and
  \<open>chunks\<close> returns \<open>r\<close>.
\<close>

inductive chunk_run :: "pystr \<Rightarrow> int \<Rightarrow> pystr list \<Rightarrow> pystr list \<Rightarrow> bool" where
  chunk_exit: "\<not> start < int (length text) \<Longrightarrow> chunk_run text start chunks chunks"
| chunk_iter: "start < int (length text) \<Longrightarrow>
     chunk_run text (chunk_end text start - CHUNK_OVERLAP)
       (append_chunk chunks (chunk_at text start)) r \<Longrightarrow>
     chunk_run text start chunks r"

text \<open>
  The states the loop head can be in, terminating or not: \<open>chunk_reach text start chunks\<close>
  holds when the loop, started by \<open>chunk_text text\<close>, comes to its test with these
  values of \<open>start\<close> and \<open>chunks\<close>.
\<close>

inductive chunk_reach :: "pystr \<Rightarrow> int \<Rightarrow> pystr list \<Rightarrow> bool" where
  reach_init: "chunk_reach text 0 []"
| reach_step: "chunk_reach text start chunks \<Longrightarrow> start < int (length text) \<Longrightarrow>
     chunk_reach text (chunk_end text start - CHUNK_OVERLAP)
       (append_chunk chunks (chunk_at text start))"

section \<open>chat.py: retrieval, context assembly, generation, orchestration\<close>

definition TOP_K :: int where
  "TOP_K = 5"

text \<open>
  Similarity scores are Python floats. They are modelled as exact rationals: the
  properties below compare and round them, and the binary rounding error of a float is
  left out of the model.
\<close>

definition SCORE_THRESHOLD :: rat where
  "SCORE_THRESHOLD = 3 / 10"

definition SYSTEM_PROMPT :: pystr where
  "SYSTEM_PROMPT =
     asc ''You are an expert HR assistant helping a recruiter evaluate candidates.'' @ [NL, NL] @
     asc ''Rules:'' @ [NL] @
     asc ''- Answer ONLY from the CV excerpts provided '' @ [8212] @
     asc '' never invent information'' @ [NL] @
     asc ''- Always mention the candidate'' @ [39] @
     asc ''s name when referencing their data'' @ [NL] @
     asc ''- Be concise but complete; use structure when comparing multiple candidates'' @ [NL] @
     asc ''- If relevant info is missing from the excerpts, say so clearly'' @ [NL] @
     asc ''- End with a short recommendation when the question involves selection or ranking''"

text \<open>
  The payload of a stored point, with the keys \<open>ingest_cvs\<close> writes, and a point as
  the store's \<open>search\<close> returns it.
\<close>

record payload =
  pl_text :: pystr
  pl_candidate :: pystr
  pl_filename :: pystr
  pl_chunk_index :: int
  pl_total_chunks :: int

record scored_point =
  sp_payload :: payload
  sp_score :: rat

text \<open>The dictionary \<open>retrieve\<close> builds for each point.\<close>

record hit =
  h_text :: pystr
  h_candidate :: pystr
  h_filename :: pystr
  h_chunk_index :: int
  h_score :: rat

text \<open>
  \<open>round(x, ndigits)\<close>: to the nearest multiple of \<open>10 ^ -ndigits\<close>, a tie going to
  the even one.
\<close>

definition py_round :: "rat \<Rightarrow> nat \<Rightarrow> rat" where
  "py_round x ndigits =
     (let y = x * 10 ^ ndigits;
          f = \<lfloor>y\<rfloor>;
          d = y - of_int f
      in of_int (if d < 1 / 2 then f else if 1 / 2 < d then f + 1
                 else if even f then f else f + 1) / 10 ^ ndigits)"

text \<open>
  \<open>retrieve\<close>. The embedding function and the store's \<open>search\<close> are external and
  come as parameters; \<open>search\<close> takes the query vector, the limit and the score
  threshold.
\<close>

definition retrieve ::
  "(pystr \<Rightarrow> rat list) \<Rightarrow> (rat list \<Rightarrow> int \<Rightarrow> rat \<Rightarrow> scored_point list) \<Rightarrow> pystr \<Rightarrow> int \<Rightarrow> hit list"
where
  "retrieve embed_query search question top_k =
     (let vector = embed_query question;
          hits = search vector top_k SCORE_THRESHOLD
      in map (\<lambda>h. \<lparr>h_text = pl_text (sp_payload h),
                     h_candidate = pl_candidate (sp_payload h),
                     h_filename = pl_filename (sp_payload h),
                     h_chunk_index = pl_chunk_index (sp_payload h),
                     h_score = py_round (sp_score h) 3\<rparr>) hits)"

text \<open>
  \<open>by_candidate.setdefault(c["candidate"], []).append(c)\<close> on a dictionary kept as an
  association list in insertion order, which is the order a Python \<open>dict\<close> iterates in.
\<close>

fun setdefault_append :: "(pystr \<times> hit list) list \<Rightarrow> hit \<Rightarrow> (pystr \<times> hit list) list" where
  "setdefault_append [] c = [(h_candidate c, [c])]"
| "setdefault_append ((k, items) # rest) c =
     (if k = h_candidate c then (k, items @ [c]) # rest
      else (k, items) # setdefault_append rest c)"

definition by_candidate :: "hit list \<Rightarrow> (pystr \<times> hit list) list" where
  "by_candidate hits = foldl setdefault_append [] hits"

definition candidate_header :: "pystr \<Rightarrow> pystr" where
  "candidate_header candidate =
     replicate 50 61 @ [NL] @ asc ''CANDIDATE: '' @ candidate @ [NL] @ replicate 50 61"

text \<open>What one pass of the outer loop of \<open>build_context\<close> appends to \<open>parts\<close>.\<close>

definition section_parts :: "pystr \<times> hit list \<Rightarrow> pystr list" where
  "section_parts entry =
     candidate_header (fst entry) # concat (map (\<lambda>item. [h_text item, []]) (snd entry))"

text \<open>\<open>sep.join(parts)\<close>\<close>

fun py_join :: "pystr \<Rightarrow> pystr list \<Rightarrow> pystr" where
  "py_join sep [] = []"
| "py_join sep [p] = p"
| "py_join sep (p # q # ps) = p @ sep @ py_join sep (q # ps)"

definition build_context :: "hit list \<Rightarrow> pystr" where
  "build_context hits = py_join [NL] (concat (map section_parts (by_candidate hits)))"

record turn =
  t_role :: pystr
  t_content :: pystr

definition turn_line :: "turn \<Rightarrow> pystr" where
  "turn_line t =
     (if t_role t = asc ''user'' then asc ''Recruiter'' else asc ''Assistant'') @
     asc '': '' @ t_content t @ [NL, NL]"

text \<open>
  The \<open>history_text\<close> that \<open>ask_gemini\<close> accumulates over \<open>history[-4:]\<close>; an
  absent history is \<open>None\<close>.
\<close>

definition history_text :: "turn list option \<Rightarrow> pystr" where
  "history_text history =
     (case history of
        None \<Rightarrow> []
      | Some h \<Rightarrow>
          if h = [] then []
          else foldl (\<lambda>acc t. acc @ turn_line t) [] (py_slice h (- 4) (int (length h))))"

definition ask_prompt :: "pystr \<Rightarrow> pystr \<Rightarrow> turn list option \<Rightarrow> pystr" where
  "ask_prompt question context history =
     SYSTEM_PROMPT @ [NL, NL] @
     (if history_text history \<noteq> []
      then asc ''Previous conversation:'' @ [NL] @ history_text history else []) @
     [NL] @ asc ''CV Excerpts:'' @ [NL] @ context @ [NL, NL] @ asc ''---'' @ [NL, NL] @
     asc ''Recruiter question: '' @ question"

text \<open>
  The language model is external: a function from the prompt to the text of its
  response. Every call of \<open>generate_content\<close> is recorded by appending its prompt to
  \<open>calls\<close>, the list of the prompts sent so far.
\<close>

definition ask_gemini ::
  "pystr \<Rightarrow> pystr \<Rightarrow> (pystr \<Rightarrow> pystr) \<Rightarrow> turn list option \<Rightarrow> pystr list \<Rightarrow> pystr \<times> pystr list"
where
  "ask_gemini question context gemini_model history calls =
     (let prompt = ask_prompt question context history
      in (gemini_model prompt, calls @ [prompt]))"

record rag_result =
  r_answer :: pystr
  r_chunks :: "hit list"

definition NO_CONTENT_ANSWER :: pystr where
  "NO_CONTENT_ANSWER =
     [9888, 65039] @ asc '' No relevant CV content found. Try rephrasing or index more CVs.''"

definition rag ::
  "(pystr \<Rightarrow> rat list) \<Rightarrow> (rat list \<Rightarrow> int \<Rightarrow> rat \<Rightarrow> scored_point list) \<Rightarrow> (pystr \<Rightarrow> pystr) \<Rightarrow>
   pystr \<Rightarrow> turn list option \<Rightarrow> pystr list \<Rightarrow> rag_result \<times> pystr list"
where
  "rag embed_query search gemini_model question history calls =
     (let chunks = retrieve embed_query search question TOP_K in
      if chunks = [] then (\<lparr>r_answer = NO_CONTENT_ANSWER, r_chunks = []\<rparr>, calls)
      else
        (let context = build_context chunks;
             reply = ask_gemini question context gemini_model history calls
         in (\<lparr>r_answer = fst reply, r_chunks = chunks\<rparr>, snd reply)))"

section \<open>Grouping as the specification words it\<close>



section \<open>Concrete inputs\<close>

text \<open>100 times \<open>a\<close>, a newline, 400 times \<open>b\<close>.\<close>

definition stuck_text :: pystr where
  "stuck_text = replicate 100 97 @ [NL] @ replicate 400 98"

text \<open>A newline at position 99 and an \<open>X\<close> at position 200 among 501 characters.\<close>

definition gap_text :: pystr where
  "gap_text = replicate 99 97 @ [NL] @ replicate 100 97 @ [88] @ replicate 300 97"

text \<open>600 times \<open>a\<close>, no newline.\<close>

definition long_text :: pystr where
  "long_text = replicate 600 97"

definition padded_text :: pystr where
  "padded_text = [32] @ asc ''hi'' @ [NL]"

text \<open>An in-memory store of two points that filters by the threshold it is given.\<close>

definition demo_points :: "scored_point list" where
  "demo_points =
     [\<lparr>sp_payload = \<lparr>pl_text = asc ''Python, SQL'', pl_candidate = asc ''ana'',
         pl_filename = asc ''ana.txt'', pl_chunk_index = 0, pl_total_chunks = 1\<rparr>,
       sp_score = 1 / 2\<rparr>,
      \<lparr>sp_payload = \<lparr>pl_text = asc ''Gardening'', pl_candidate = asc ''bo'',
         pl_filename = asc ''bo.txt'', pl_chunk_index = 0, pl_total_chunks = 1\<rparr>,
       sp_score = 1 / 5\<rparr>]"

definition demo_search :: "rat list \<Rightarrow> int \<Rightarrow> rat \<Rightarrow> scored_point list" where
  "demo_search vector limit score_threshold =
     take (nat limit) (filter (\<lambda>p. score_threshold \<le> sp_score p) demo_points)"

definition demo_embed :: "pystr \<Rightarrow> rat list" where
  "demo_embed question = [1, 0]"



text \<open>A history of five turns.\<close>

definition demo_history :: "turn list" where
  "demo_history =
     [\<lparr>t_role = asc ''user'', t_content = asc ''q1''\<rparr>,
      \<lparr>t_role = asc ''assistant'', t_content = asc ''a1''\<rparr>,
      \<lparr>t_role = asc ''user'', t_content = asc ''q2''\<rparr>,
      \<lparr>t_role = asc ''assistant'', t_content = asc ''a2''\<rparr>,
      \<lparr>t_role = asc ''user'', t_content = asc ''q3''\<rparr>]"

text \<open>A store's \<open>search\<close> honours the threshold it is passed.\<close>

definition honours_threshold :: "(rat list \<Rightarrow> int \<Rightarrow> rat \<Rightarrow> scored_point list) \<Rightarrow> bool" where
  "honours_threshold search \<longleftrightarrow> (\<forall>v k t. \<forall>p \<in> set (search v k t). t \<le> sp_score p)"

section \<open>Facts about the built-ins\<close>

lemma rfind_scan_append:
  "rfind_scan c (xs @ ys) i best = rfind_scan c ys (i + int (length xs)) (rfind_scan c xs i best)"
  by (induction xs arbitrary: i best) (simp_all add: add.assoc)

lemma rfind_scan_replicate: "a \<noteq> c \<Longrightarrow> rfind_scan c (replicate n a) i best = best"
  by (induction n arbitrary: i) simp_all

lemma rfind_scan_range:
  "rfind_scan c xs i best = best \<or>
   (i \<le> rfind_scan c xs i best \<and> rfind_scan c xs i best < i + int (length xs))"
proof (induction xs arbitrary: i best)
  case Nil
  then show ?case by simp
next
  case (Cons x xs)
  show ?case
    using Cons.IH [of "i + 1" "if x = c then i else best"] by (auto split: if_splits)
qed

text \<open>\<open>rfind\<close> answers \<open>-1\<close> or a position inside the slice it searched.\<close>

lemma py_rfind_range:
  "py_rfind c s a b = - 1 \<or>
   (int (slice_lo s a) \<le> py_rfind c s a b \<and> py_rfind c s a b < int (slice_hi s b) \<and>
    slice_lo s a < slice_hi s b)"
  using rfind_scan_range [of c "py_slice s a b" "int (slice_lo s a)" "- 1"]
  by (auto simp: py_rfind_def py_slice_def)

lemma length_py_strip: "length (py_strip s) \<le> length s"
proof -
  have "length (py_strip s) \<le> length (dropWhile py_isspace s)"
    unfolding py_strip_def using length_dropWhile_le [of py_isspace "rev (dropWhile py_isspace s)"]
    by simp
  also have "\<dots> \<le> length s"
    by (rule length_dropWhile_le)
  finally show ?thesis .
qed

lemma length_py_slice: "length (py_slice s a b) \<le> slice_hi s b - slice_lo s a"
  by (simp add: py_slice_def)

lemma dropWhile_replicate_keep: "\<not> P a \<Longrightarrow> dropWhile P (replicate n a) = replicate n a"
  by (cases n) simp_all

lemma py_strip_replicate: "\<not> py_isspace a \<Longrightarrow> py_strip (replicate n a) = replicate n a"
  by (simp add: py_strip_def dropWhile_replicate_keep)

lemma last_four: "py_slice h (- 4) (int (length h)) = drop (length h - 4) h"
  by (auto simp: py_slice_def slice_lo_def slice_hi_def py_index_def max_def nat_diff_distrib)


lemma py_round_lower:
  assumes "of_int k / 10 ^ n \<le> x"
  shows "of_int k / 10 ^ n \<le> py_round x n"
proof -
  define f where "f = \<lfloor>x * 10 ^ n\<rfloor>"
  have "of_int k \<le> x * 10 ^ n"
    using assms by (simp add: pos_divide_le_eq)
  then have kf: "k \<le> f"
    unfolding f_def by (simp add: le_floor_iff)
  obtain g where g: "py_round x n = of_int g / 10 ^ n" and fg: "f \<le> g"
    unfolding py_round_def Let_def f_def by (auto split: if_splits)
  have "(of_int k :: rat) \<le> of_int g"
    using kf fg by simp
  then show ?thesis
    unfolding g by (simp add: divide_right_mono)
qed

section \<open>The chunker loop\<close>

subsection \<open>The function and the relation describe the same runs\<close>

lemma chunk_loop_run: "chunk_loop t s cs = Some r \<Longrightarrow> chunk_run t s cs r"
proof (erule chunk_loop.raw_induct [rotated, where P = chunk_run])
  fix f :: "pystr \<Rightarrow> int \<Rightarrow> pystr list \<Rightarrow> pystr list option" and t s cs r
  assume IH: "\<And>t s cs r. f t s cs = Some r \<Longrightarrow> chunk_run t s cs r"
    and body: "(if s < int (length t)
      then f t (chunk_end t s - CHUNK_OVERLAP) (append_chunk cs (chunk_at t s))
      else Some cs) = Some r"
  show "chunk_run t s cs r"
  proof (cases "s < int (length t)")
    case True
    with body IH show ?thesis by (simp add: chunk_iter)
  next
    case False
    with body show ?thesis by (simp add: chunk_exit)
  qed
qed

lemma chunk_run_loop: "chunk_run t s cs r \<Longrightarrow> chunk_loop t s cs = Some r"
  by (induction rule: chunk_run.induct) (simp_all add: chunk_loop.simps)

lemma chunk_run_det: "chunk_run t s cs r1 \<Longrightarrow> chunk_run t s cs r2 \<Longrightarrow> r1 = r2"
proof (induction arbitrary: r2 rule: chunk_run.induct)
  case (chunk_exit s t cs)
  from chunk_exit.prems chunk_exit.hyps show ?case
    by (cases rule: chunk_run.cases) simp_all
next
  case (chunk_iter s t cs r)
  from chunk_iter.prems chunk_iter.hyps(1) chunk_iter.IH show ?case
    by (cases rule: chunk_run.cases) simp_all
qed

text \<open>A run that returns ends in a state the loop head reaches.\<close>

lemma chunk_run_reach:
  "chunk_run t s cs r \<Longrightarrow> chunk_reach t s cs \<Longrightarrow> \<exists>s'. chunk_reach t s' r"
  by (induction rule: chunk_run.induct) (auto intro: reach_step)

lemma chunk_text_reach: "chunk_text t = Some r \<Longrightarrow> \<exists>s'. chunk_reach t s' r"
  using chunk_run_reach [OF chunk_loop_run reach_init] by (simp add: chunk_text_def)

subsection \<open>One iteration\<close>

lemma chunk_end_cases:
  "chunk_end t s = s + CHUNK_SIZE \<or>
   (s + CHUNK_SIZE < int (length t) \<and> s < chunk_end t s \<and>
    chunk_end t s = py_rfind NL t s (s + CHUNK_SIZE))"
  by (simp add: chunk_end_def Let_def)

lemma chunk_end_lower: "- 101 \<le> s \<Longrightarrow> - 1 \<le> chunk_end t s"
  using chunk_end_cases [of t s] py_rfind_range [of NL t s "s + CHUNK_SIZE"]
  by (auto simp: CHUNK_SIZE_def)

lemma chunk_at_length:
  assumes "- 101 \<le> s"
  shows "length (chunk_at t s) \<le> 500"
proof -
  have tent: "slice_hi t (s + 500) - slice_lo t s \<le> 500"
    using assms by (auto simp: slice_hi_def slice_lo_def py_index_def)
  have "slice_hi t (chunk_end t s) - slice_lo t s \<le> 500"
  proof -
    consider (tentative) "chunk_end t s = s + 500"
      | (newline) "s + 500 < int (length t)" "s < chunk_end t s"
          "chunk_end t s = py_rfind NL t s (s + 500)"
      using chunk_end_cases [of t s] by (auto simp: CHUNK_SIZE_def)
    then show ?thesis
    proof cases
      case tentative
      with tent show ?thesis by simp
    next
      case newline
      from py_rfind_range [of NL t s "s + 500"] newline(3)
      consider "chunk_end t s = - 1"
        | "int (slice_lo t s) \<le> chunk_end t s" "chunk_end t s < int (slice_hi t (s + 500))"
        by auto
      then show ?thesis
      proof cases
        case 1
        with newline(2) assms show ?thesis
          by (auto simp: slice_hi_def slice_lo_def py_index_def)
      next
        case 2
        then have "slice_hi t (chunk_end t s) \<le> slice_hi t (s + 500)"
          by (auto simp: slice_hi_def py_index_def split: if_splits)
        with tent show ?thesis by linarith
      qed
    qed
  qed
  then have "length (py_slice t s (chunk_end t s)) \<le> 500"
    using length_py_slice [of t s "chunk_end t s"] by linarith
  then show ?thesis
    unfolding chunk_at_def using length_py_strip [of "py_slice t s (chunk_end t s)"] by linarith
qed


subsection \<open>Invariants of the loop head\<close>

lemma chunk_reach_invariant:
  "chunk_reach t s cs \<Longrightarrow> - 101 \<le> s \<and> (\<forall>c\<in>set cs. c \<noteq> [] \<and> length c \<le> 500)"
proof (induction rule: chunk_reach.induct)
  case (reach_init t)
  show ?case by simp
next
  case (reach_step t s cs)
  then have low: "- 101 \<le> s" and old: "\<forall>c\<in>set cs. c \<noteq> [] \<and> length c \<le> 500"
    by simp_all
  have "- 101 \<le> chunk_end t s - CHUNK_OVERLAP"
    using chunk_end_lower [OF low, of t] by (simp add: CHUNK_OVERLAP_def)
  moreover have "\<forall>c\<in>set (append_chunk cs (chunk_at t s)). c \<noteq> [] \<and> length c \<le> 500"
    using old chunk_at_length [OF low, of t] by (simp add: append_chunk_def)
  ultimately show ?case by simp
qed

subsection \<open>Runs on concrete texts\<close>

lemma stuck_len: "length stuck_text = 501"
  by (simp add: stuck_text_def)

lemma stuck_end: "chunk_end stuck_text 0 = 100"
  by (simp add: chunk_end_def py_rfind_def py_slice_def slice_lo_def slice_hi_def py_index_def
      CHUNK_SIZE_def NL_def stuck_text_def rfind_scan_append rfind_scan_replicate)

text \<open>From \<open>start = 0\<close> the loop on \<open>stuck_text\<close> comes back to \<open>start = 0\<close>.\<close>

lemma stuck_run: "chunk_run t s cs r \<Longrightarrow> t = stuck_text \<Longrightarrow> s = 0 \<Longrightarrow> False"
  by (induction rule: chunk_run.induct) (simp_all add: stuck_end stuck_len CHUNK_OVERLAP_def)

lemma gap_len: "length gap_text = 501"
  by (simp add: gap_text_def)

lemma gap_end0: "chunk_end gap_text 0 = 99"
  by (simp add: chunk_end_def py_rfind_def py_slice_def slice_lo_def slice_hi_def py_index_def
      CHUNK_SIZE_def NL_def gap_text_def rfind_scan_append rfind_scan_replicate)

lemma gap_end1: "chunk_end gap_text (- 1) = 499"
  by (simp add: chunk_end_def py_rfind_def py_slice_def slice_lo_def slice_hi_def py_index_def
      CHUNK_SIZE_def NL_def gap_text_def rfind_scan_append rfind_scan_replicate)

lemma gap_end2: "chunk_end gap_text 399 = 899"
  by (simp add: chunk_end_def CHUNK_SIZE_def gap_len)

lemma gap_chunk0: "chunk_at gap_text 0 = replicate 99 97"
  unfolding chunk_at_def gap_end0
  by (simp add: py_slice_def slice_lo_def slice_hi_def py_index_def
      gap_text_def py_strip_replicate py_isspace_def)

lemma gap_chunk1: "chunk_at gap_text (- 1) = []"
  unfolding chunk_at_def gap_end1
  by (simp add: py_slice_def slice_lo_def slice_hi_def py_index_def gap_len py_strip_def)

lemma gap_chunk2: "chunk_at gap_text 399 = replicate 102 97"
  unfolding chunk_at_def gap_end2
  by (simp add: py_slice_def slice_lo_def slice_hi_def py_index_def
      gap_text_def py_strip_replicate py_isspace_def)

lemma gap_result: "chunk_text gap_text = Some [replicate 99 97, replicate 102 97]"
proof -
  have "chunk_loop gap_text 799 [replicate 99 97, replicate 102 97]
      = Some [replicate 99 97, replicate 102 97]"
    by (subst chunk_loop.simps) (simp add: gap_len)
  then have "chunk_loop gap_text 399 [replicate 99 97] = Some [replicate 99 97, replicate 102 97]"
    by (subst chunk_loop.simps)
      (simp add: gap_len gap_end2 gap_chunk2 append_chunk_def CHUNK_OVERLAP_def)
  then have "chunk_loop gap_text (- 1) [replicate 99 97] = Some [replicate 99 97, replicate 102 97]"
    by (subst chunk_loop.simps)
      (simp add: gap_len gap_end1 gap_chunk1 append_chunk_def CHUNK_OVERLAP_def)
  then have "chunk_loop gap_text 0 [] = Some [replicate 99 97, replicate 102 97]"
    by (subst chunk_loop.simps)
      (simp add: gap_len gap_end0 gap_chunk0 append_chunk_def CHUNK_OVERLAP_def)
  then show ?thesis
    by (simp add: chunk_text_def)
qed

lemma gap_segments:
  "segment gap_text 0 (chunk_end gap_text 0) = {0..<99}"
  "segment gap_text (- 1) (chunk_end gap_text (- 1)) = {}"
  "segment gap_text 399 (chunk_end gap_text 399) = {399..<501}"
  unfolding gap_end0 gap_end1 gap_end2
  by (simp_all add: segment_def slice_lo_def slice_hi_def py_index_def gap_len)

lemma long_len: "length long_text = 600"
  by (simp add: long_text_def)

lemma long_end0: "chunk_end long_text 0 = 500"
  by (simp add: chunk_end_def py_rfind_def py_slice_def slice_lo_def slice_hi_def py_index_def
      CHUNK_SIZE_def NL_def long_text_def rfind_scan_replicate)

lemma long_end1: "chunk_end long_text 400 = 900"
  by (simp add: chunk_end_def CHUNK_SIZE_def long_len)

lemma long_chunk0: "chunk_at long_text 0 = replicate 500 97"
  unfolding chunk_at_def long_end0
  by (simp add: py_slice_def slice_lo_def slice_hi_def py_index_def
      long_text_def py_strip_replicate py_isspace_def)

lemma long_chunk1: "chunk_at long_text 400 = replicate 200 97"
  unfolding chunk_at_def long_end1
  by (simp add: py_slice_def slice_lo_def slice_hi_def py_index_def
      long_text_def py_strip_replicate py_isspace_def)

lemma long_result: "chunk_text long_text = Some [replicate 500 97, replicate 200 97]"
proof -
  have "chunk_loop long_text 800 [replicate 500 97, replicate 200 97]
      = Some [replicate 500 97, replicate 200 97]"
    by (subst chunk_loop.simps) (simp add: long_len)
  then have "chunk_loop long_text 400 [replicate 500 97]
      = Some [replicate 500 97, replicate 200 97]"
    by (subst chunk_loop.simps)
      (simp add: long_len long_end1 long_chunk1 append_chunk_def CHUNK_OVERLAP_def)
  then have "chunk_loop long_text 0 [] = Some [replicate 500 97, replicate 200 97]"
    by (subst chunk_loop.simps)
      (simp add: long_len long_end0 long_chunk0 append_chunk_def CHUNK_OVERLAP_def)
  then show ?thesis
    by (simp add: chunk_text_def)
qed

lemma long_reach: "chunk_reach long_text 400 [replicate 500 97]"
  using reach_step [OF reach_init, of long_text]
  by (simp add: long_len long_end0 long_chunk0 append_chunk_def CHUNK_OVERLAP_def)

lemma padded_end: "chunk_end padded_text 0 = 500"
  by (simp add: chunk_end_def CHUNK_SIZE_def padded_text_def asc_def)

lemma padded_chunk: "chunk_at padded_text 0 = asc ''hi''"
  unfolding chunk_at_def padded_end
  by (simp add: py_slice_def slice_lo_def slice_hi_def py_index_def padded_text_def asc_def
      py_strip_def py_isspace_def NL_def)

lemma padded_result: "chunk_text padded_text = Some [asc ''hi'']"
proof -
  have "chunk_loop padded_text 400 [asc ''hi''] = Some [asc ''hi'']"
    by (subst chunk_loop.simps) (simp add: padded_text_def asc_def)
  then have "chunk_loop padded_text 0 [] = Some [asc ''hi'']"
    by (subst chunk_loop.simps)
      (simp add: padded_end padded_chunk append_chunk_def CHUNK_OVERLAP_def,
       simp add: padded_text_def asc_def)
  then show ?thesis
    by (simp add: chunk_text_def)
qed

lemma padded_reach: "chunk_reach padded_text 400 [asc ''hi'']"
  using reach_step [OF reach_init, of padded_text]
  by (simp add: padded_end padded_chunk append_chunk_def CHUNK_OVERLAP_def,
      simp add: padded_text_def asc_def)

section \<open>The claims about the chunker\<close>

text \<open>
  Claim C1 says that \<open>chunk_text\<close> terminates on every text. It does not: on
  \<open>stuck_text\<close> (100 times \<open>a\<close>, a newline, 400 times \<open>b\<close>) the first iteration
  breaks at the newline at position 100, and the next \<open>start\<close> is \<open>100 - CHUNK_OVERLAP = 0\<close>
  again. The loop repeats this iteration forever and the call never returns.
\<close>

theorem chunk_text_stuck_never_returns: "chunk_text stuck_text = None"
proof (cases "chunk_text stuck_text")
  case None
  then show ?thesis .
next
  case (Some r)
  then have "chunk_run stuck_text 0 [] r"
    by (simp add: chunk_text_def chunk_loop_run)
  then show ?thesis
    using stuck_run by blast
qed

text \<open>
  Claim C5 says that the segments the loop visits cover the text without gaps, so that
  every non-whitespace character is in some chunk. On \<open>gap_text\<close> the call returns, and
  the character \<open>X\<close> at position 200 is in no segment and in no chunk: the first
  iteration breaks at the newline at position 99, the next \<open>start\<close> is \<open>-1\<close>, the slice
  \<open>text[-1:499]\<close> is empty, and the loop goes on from 399.
\<close>

theorem chunk_text_leaves_gap:
  "chunk_text gap_text = Some [replicate 99 97, replicate 102 97] \<and>
   gap_text ! 200 = 88 \<and> \<not> py_isspace 88 \<and>
   88 \<notin> set (concat [replicate 99 97, replicate 102 (97::nat)]) \<and>
   200 \<notin> segment gap_text 0 (chunk_end gap_text 0) \<union>
           segment gap_text (- 1) (chunk_end gap_text (- 1)) \<union>
           segment gap_text 399 (chunk_end gap_text 399)"
proof -
  have "gap_text ! 200 = 88"
    by (simp add: gap_text_def nth_append)
  moreover have "\<not> py_isspace 88"
    by (simp add: py_isspace_def)
  moreover have "88 \<notin> set (concat [replicate 99 97, replicate 102 (97::nat)])"
    by simp
  moreover have "200 \<notin> segment gap_text 0 (chunk_end gap_text 0) \<union>
           segment gap_text (- 1) (chunk_end gap_text (- 1)) \<union>
           segment gap_text 399 (chunk_end gap_text 399)"
    unfolding gap_segments by simp
  ultimately show ?thesis
    using gap_result by blast
qed



text \<open>
  Claim C7: every chunk of the list \<open>chunk_text\<close> returns is a non-empty string, and so
  is every chunk the loop has appended at any moment of a run, returning or not; the
  empty text yields the empty list.
\<close>

theorem chunk_text_nonempty:
  "chunk_text [] = Some [] \<and>
   (chunk_text text = Some chunks \<longrightarrow> (\<forall>c\<in>set chunks. c \<noteq> [])) \<and>
   (chunk_reach text start cs \<longrightarrow> (\<forall>c\<in>set cs. c \<noteq> []))"
proof -
  have "chunk_loop [] 0 [] = Some []"
    by (subst chunk_loop.simps) simp
  then have empty: "chunk_text [] = Some []"
    by (simp add: chunk_text_def)
  have reach: "chunk_reach t s l \<Longrightarrow> \<forall>c\<in>set l. c \<noteq> []" for t s l
    using chunk_reach_invariant [of t s l] by simp
  have "chunk_text text = Some chunks \<Longrightarrow> \<forall>c\<in>set chunks. c \<noteq> []"
    using chunk_text_reach [of "text" chunks] reach by blast
  with empty reach show ?thesis
    by blast
qed

theorem chunk_text_nonempty_witness:
  "chunk_text padded_text = Some [asc ''hi''] \<and> chunk_reach padded_text 400 [asc ''hi''] \<and>
   asc ''hi'' \<noteq> []"
  using chunk_text_nonempty [of padded_text "[asc ''hi'']" 400 "[asc ''hi'']"]
    padded_result padded_reach
  by simp

text \<open>
  Claim C9: \<open>chunk_text\<close> is deterministic. Two runs of the loop on the same text, from
  the initial state \<open>start = 0\<close>, \<open>chunks = []\<close>, return the same list, which is the
  value of \<open>chunk_text\<close>.
\<close>

theorem chunk_text_deterministic:
  assumes "chunk_run text 0 [] r1" and "chunk_run text 0 [] r2"
  shows "r1 = r2 \<and> chunk_text text = Some r1"
  using chunk_run_det [OF assms] chunk_run_loop [OF assms(1)] by (simp add: chunk_text_def)

theorem chunk_text_deterministic_witness:
  "chunk_run padded_text 0 [] [asc ''hi''] \<and> chunk_text padded_text = Some [asc ''hi'']"
proof -
  have h: "chunk_run padded_text 0 [] [asc ''hi'']"
    using padded_result by (simp add: chunk_text_def chunk_loop_run)
  from h chunk_text_deterministic [OF h h] show ?thesis
    by blast
qed

text \<open>
  Claim C10: every chunk of the list \<open>chunk_text\<close> returns has at most \<open>CHUNK_SIZE\<close>
  characters, and so has every chunk the loop has appended at any moment of a run,
  returning or not.
\<close>

theorem chunk_length_bounded:
  "(chunk_text text = Some chunks \<longrightarrow> (\<forall>c\<in>set chunks. int (length c) \<le> CHUNK_SIZE)) \<and>
   (chunk_reach text start cs \<longrightarrow> (\<forall>c\<in>set cs. int (length c) \<le> CHUNK_SIZE))"
proof -
  have reach: "chunk_reach t s l \<Longrightarrow> \<forall>c\<in>set l. int (length c) \<le> CHUNK_SIZE" for t s l
    using chunk_reach_invariant [of t s l] by (simp add: CHUNK_SIZE_def)
  have "chunk_text text = Some chunks \<Longrightarrow> \<forall>c\<in>set chunks. int (length c) \<le> CHUNK_SIZE"
    using chunk_text_reach [of "text" chunks] reach by blast
  with reach show ?thesis
    by blast
qed

theorem chunk_length_bounded_witness:
  "chunk_text long_text = Some [replicate 500 97, replicate 200 97] \<and>
   chunk_reach long_text 400 [replicate 500 97] \<and>
   int (length (replicate 500 (97::nat))) \<le> CHUNK_SIZE \<and>
   int (length (replicate 200 (97::nat))) \<le> CHUNK_SIZE"
  using chunk_length_bounded [of long_text "[replicate 500 97, replicate 200 97]" 400
      "[replicate 500 97]"] long_result long_reach
  by simp

section \<open>Grouping by candidate\<close>









section \<open>The history block\<close>

lemma foldl_append_concat: "foldl (\<lambda>acc t. acc @ f t) a xs = a @ concat (map f xs)"
  by (induction xs arbitrary: a) simp_all

lemma history_text_window:
  "history_text (Some h) = concat (map turn_line (drop (length h - 4) h))"
  by (simp add: history_text_def foldl_append_concat last_four)

lemma turn_line_nonempty: "turn_line t \<noteq> []"
  by (simp add: turn_line_def)

lemma history_text_nonempty: "history_text (Some (t # ts)) \<noteq> []"
proof -
  have "drop (length (t # ts) - 4) (t # ts) \<noteq> []"
    by simp
  then obtain u us where "drop (length (t # ts) - 4) (t # ts) = u # us"
    by (cases "drop (length (t # ts) - 4) (t # ts)") auto
  then show ?thesis
    unfolding history_text_window by (simp add: turn_line_nonempty)
qed

section \<open>Retrieval and orchestration\<close>

lemma py_round_threshold: "SCORE_THRESHOLD \<le> x \<Longrightarrow> SCORE_THRESHOLD \<le> py_round x 3"
  using py_round_lower [of 300 3 x] by (simp add: SCORE_THRESHOLD_def)

lemma demo_honours: "honours_threshold demo_search"
  unfolding honours_threshold_def demo_search_def
  by (auto dest: in_set_takeD)

lemma demo_retrieve: "map h_score (retrieve demo_embed demo_search q TOP_K) = [1 / 2]"
  by (simp add: retrieve_def demo_search_def demo_points_def SCORE_THRESHOLD_def TOP_K_def
      py_round_def Let_def)


text \<open>When retrieval returns hits, \<open>rag\<close> calls the generator once, with the prompt
  built from the context of these hits.\<close>

lemma rag_generates:
  assumes "retrieve embed_query search question TOP_K \<noteq> []"
  shows "snd (rag embed_query search gemini_model question history calls) =
    calls @ [ask_prompt question (build_context (retrieve embed_query search question TOP_K))
      history]"
  using assms by (simp add: rag_def ask_gemini_def Let_def)

section \<open>The claims about chat.py\<close>




text \<open>
  Claim C4, amended: \<open>retrieve\<close> has no threshold parameter; it passes the constant
  \<open>SCORE_THRESHOLD\<close> to the store's \<open>search\<close>. When \<open>search\<close> honours the threshold
  it is passed, no hit that \<open>retrieve\<close> returns has a score, rounded to three
  decimals, below \<open>SCORE_THRESHOLD\<close>.
\<close>

theorem retrieve_above_fixed_threshold:
  assumes "honours_threshold search"
  shows "\<forall>h \<in> set (retrieve embed_query search question top_k). SCORE_THRESHOLD \<le> h_score h"
  using assms unfolding honours_threshold_def retrieve_def Let_def
  by (auto intro: py_round_threshold)

theorem retrieve_above_fixed_threshold_witness:
  "honours_threshold demo_search \<and>
   retrieve demo_embed demo_search (asc ''Who knows SQL?'') TOP_K \<noteq> [] \<and>
   SCORE_THRESHOLD \<le> h_score (hd (retrieve demo_embed demo_search (asc ''Who knows SQL?'') TOP_K))"
proof -
  have h: "honours_threshold demo_search"
    by (rule demo_honours)
  have ne: "retrieve demo_embed demo_search (asc ''Who knows SQL?'') TOP_K \<noteq> []"
    using demo_retrieve [of "asc ''Who knows SQL?''"] by auto
  then have "hd (retrieve demo_embed demo_search (asc ''Who knows SQL?'') TOP_K)
      \<in> set (retrieve demo_embed demo_search (asc ''Who knows SQL?'') TOP_K)"
    by (rule hd_in_set)
  with retrieve_above_fixed_threshold [OF h] h ne show ?thesis
    by blast
qed

text \<open>
  The claim as stated, for any score threshold, fails: with a store that honours the
  threshold it is passed, \<open>retrieve\<close> returns a hit of score \<open>1 / 2\<close>, which is below
  a threshold of \<open>3 / 4\<close>.
\<close>

theorem retrieve_any_threshold_counterexample:
  "honours_threshold demo_search \<and>
   map h_score (retrieve demo_embed demo_search (asc ''Who knows SQL?'') TOP_K) = [1 / 2] \<and>
   \<not> (3 / 4 \<le> (1 / 2 :: rat))"
  using demo_honours demo_retrieve [of "asc ''Who knows SQL?''"] by simp

text \<open>
  Claim C8: the history block of the prompt is made of the last four turns of the
  history, or of all of them when there are fewer; each turn is a line of its role tag,
  \<open>Recruiter\<close> for the role \<open>user\<close> and \<open>Assistant\<close> for any other, a colon and
  a space, the content of the turn, and two newlines. The block is left out when the
  history is absent or empty, and \<open>ask_gemini\<close> sends this prompt. On a history of
  five turns the block holds the last four, the first question gone.
\<close>

theorem ask_prompt_history_window:
  "history_text (Some h) = concat (map turn_line (drop (length h - 4) h)) \<and>
   length (drop (length h - 4) h) = min 4 (length h) \<and>
   ask_prompt q c None =
     SYSTEM_PROMPT @ [NL, NL] @ [NL] @ asc ''CV Excerpts:'' @ [NL] @ c @ [NL, NL] @
     asc ''---'' @ [NL, NL] @ asc ''Recruiter question: '' @ q \<and>
   ask_prompt q c (Some []) =
     SYSTEM_PROMPT @ [NL, NL] @ [NL] @ asc ''CV Excerpts:'' @ [NL] @ c @ [NL, NL] @
     asc ''---'' @ [NL, NL] @ asc ''Recruiter question: '' @ q \<and>
   ask_prompt q c (Some (t # ts)) =
     SYSTEM_PROMPT @ [NL, NL] @ asc ''Previous conversation:'' @ [NL] @
     concat (map turn_line (drop (length (t # ts) - 4) (t # ts))) @
     [NL] @ asc ''CV Excerpts:'' @ [NL] @ c @ [NL, NL] @
     asc ''---'' @ [NL, NL] @ asc ''Recruiter question: '' @ q \<and>
   ask_gemini q c g hist calls = (g (ask_prompt q c hist), calls @ [ask_prompt q c hist]) \<and>
   turn_line u =
     (if t_role u = [117, 115, 101, 114] then [82, 101, 99, 114, 117, 105, 116, 101, 114]
      else [65, 115, 115, 105, 115, 116, 97, 110, 116]) @
     [58, 32] @ t_content u @ [10, 10] \<and>
   NL = 10 \<and>
   asc ''Previous conversation:'' =
     [80, 114, 101, 118, 105, 111, 117, 115, 32, 99, 111, 110, 118, 101, 114, 115, 97, 116,
      105, 111, 110, 58] \<and>
   asc ''CV Excerpts:'' = [67, 86, 32, 69, 120, 99, 101, 114, 112, 116, 115, 58] \<and>
   asc ''---'' = [45, 45, 45] \<and>
   asc ''Recruiter question: '' =
     [82, 101, 99, 114, 117, 105, 116, 101, 114, 32, 113, 117, 101, 115, 116, 105, 111, 110,
      58, 32] \<and>
   history_text (Some demo_history) =
     [65, 115, 115, 105, 115, 116, 97, 110, 116, 58, 32, 97, 49, 10, 10] @
     [82, 101, 99, 114, 117, 105, 116, 101, 114, 58, 32, 113, 50, 10, 10] @
     [65, 115, 115, 105, 115, 116, 97, 110, 116, 58, 32, 97, 50, 10, 10] @
     [82, 101, 99, 114, 117, 105, 116, 101, 114, 58, 32, 113, 51, 10, 10]"
proof -
  have none: "history_text None = []" and nil: "history_text (Some []) = []"
    by (simp_all add: history_text_def)
  have a: "history_text (Some h) = concat (map turn_line (drop (length h - 4) h))"
    by (rule history_text_window)
  have b: "length (drop (length h - 4) h) = min 4 (length h)"
    by auto
  have c: "ask_prompt q c None =
     SYSTEM_PROMPT @ [NL, NL] @ [NL] @ asc ''CV Excerpts:'' @ [NL] @ c @ [NL, NL] @
     asc ''---'' @ [NL, NL] @ asc ''Recruiter question: '' @ q"
    unfolding ask_prompt_def none by simp
  have d: "ask_prompt q c (Some []) =
     SYSTEM_PROMPT @ [NL, NL] @ [NL] @ asc ''CV Excerpts:'' @ [NL] @ c @ [NL, NL] @
     asc ''---'' @ [NL, NL] @ asc ''Recruiter question: '' @ q"
    unfolding ask_prompt_def nil by simp
  have e: "ask_prompt q c (Some (t # ts)) =
     SYSTEM_PROMPT @ [NL, NL] @ asc ''Previous conversation:'' @ [NL] @
     concat (map turn_line (drop (length (t # ts) - 4) (t # ts))) @
     [NL] @ asc ''CV Excerpts:'' @ [NL] @ c @ [NL, NL] @
     asc ''---'' @ [NL, NL] @ asc ''Recruiter question: '' @ q"
    unfolding ask_prompt_def using history_text_nonempty [of t ts]
    by (simp add: history_text_window)
  have f: "ask_gemini q c g hist calls = (g (ask_prompt q c hist), calls @ [ask_prompt q c hist])"
    by (simp add: ask_gemini_def Let_def)
  have line: "turn_line u =
     (if t_role u = [117, 115, 101, 114] then [82, 101, 99, 114, 117, 105, 116, 101, 114]
      else [65, 115, 115, 105, 115, 116, 97, 110, 116]) @
     [58, 32] @ t_content u @ [10, 10]"
    by (simp add: turn_line_def asc_def NL_def)
  have labels: "NL = 10"
    "asc ''Previous conversation:'' =
     [80, 114, 101, 118, 105, 111, 117, 115, 32, 99, 111, 110, 118, 101, 114, 115, 97, 116,
      105, 111, 110, 58]"
    "asc ''CV Excerpts:'' = [67, 86, 32, 69, 120, 99, 101, 114, 112, 116, 115, 58]"
    "asc ''---'' = [45, 45, 45]"
    "asc ''Recruiter question: '' =
     [82, 101, 99, 114, 117, 105, 116, 101, 114, 32, 113, 117, 101, 115, 116, 105, 111, 110,
      58, 32]"
    by (simp_all add: asc_def NL_def)
  have example: "history_text (Some demo_history) =
     [65, 115, 115, 105, 115, 116, 97, 110, 116, 58, 32, 97, 49, 10, 10] @
     [82, 101, 99, 114, 117, 105, 116, 101, 114, 58, 32, 113, 50, 10, 10] @
     [65, 115, 115, 105, 115, 116, 97, 110, 116, 58, 32, 97, 50, 10, 10] @
     [82, 101, 99, 114, 117, 105, 116, 101, 114, 58, 32, 113, 51, 10, 10]"
    unfolding history_text_window
    by (simp add: demo_history_def turn_line_def asc_def NL_def)
  from a b c d e f line labels example show ?thesis
    by blast
qed

end
